theory Spec2Isabelle
  imports Complex_Main "HOL-Library.Char_ord" "HOL-Library.List_Lexorder"
begin

section \<open>Python values handled by the retrieval pipeline\<close>

text \<open>
  The vector store answers with parsed JSON, so a chunk record and its metadata are
  arbitrary JSON values: the code expects dictionaries but tests nothing before using
  them. A dictionary is an association list read with \<open>map_of\<close>. Strings are byte
  lists holding the UTF-8 encoding of the Python text; byte-wise lexicographic order of
  UTF-8 agrees with Python's code point order, which is what \<open>sorted\<close> uses.
\<close>

datatype pyval =
    PNone
  | PBool bool
  | PInt int
  | PFloat real
  | PStr string
  | PList "pyval list"
  | PDict "(string \<times> pyval) list"

text \<open>
  The exceptions met in the pipeline, all subclasses of Python's \<open>Exception\<close>.
  \<open>ServiceError\<close> stands for whatever an outbound call raises (network, auth, quota).
\<close>

datatype pyexn =
    KeyError string
  | TypeError
  | AttributeError
  | IndexError
  | ServiceError string

text \<open>Python's truth value of a JSON value, as tested by \<open>if v:\<close> and \<open>and\<close>.\<close>

fun truthy :: "pyval \<Rightarrow> bool" where
  "truthy PNone = False"
| "truthy (PBool b) = b"
| "truthy (PInt i) = (i \<noteq> 0)"
| "truthy (PFloat r) = (r \<noteq> 0)"
| "truthy (PStr s) = (s \<noteq> [])"
| "truthy (PList xs) = (xs \<noteq> [])"
| "truthy (PDict kvs) = (kvs \<noteq> [])"

text \<open>
  \<open>v[k]\<close> with a string key: a dictionary raises \<open>KeyError\<close> for a missing key, every
  other JSON value raises \<open>TypeError\<close> (a list or a string wants an integer index, the
  rest are not subscriptable).
\<close>

fun getitem :: "pyval \<Rightarrow> string \<Rightarrow> pyexn + pyval" where
  "getitem (PDict kvs) k = (case map_of kvs k of None \<Rightarrow> Inl (KeyError k) | Some v \<Rightarrow> Inr v)"
| "getitem v k = Inl TypeError"

text \<open>
  \<open>v.get(k, d)\<close>: only a dictionary has the method; on any other JSON value the
  attribute lookup raises \<open>AttributeError\<close>.
\<close>

fun dict_get :: "pyval \<Rightarrow> string \<Rightarrow> pyval \<Rightarrow> pyexn + pyval" where
  "dict_get (PDict kvs) k d = Inr (case map_of kvs k of None \<Rightarrow> d | Some v \<Rightarrow> v)"
| "dict_get v k d = Inl AttributeError"

text \<open>\<open>sep.join(xs)\<close> on a list of strings.\<close>

fun join :: "string \<Rightarrow> string list \<Rightarrow> string" where
  "join sep [] = []"
| "join sep [x] = x"
| "join sep (x # y # ys) = x @ sep @ join sep (y # ys)"

section \<open>The external collaborators and the effects of a run\<close>

record message =
  role :: string
  content :: string

text \<open>The argument dictionary of the stored procedure \<open>match_nasdaq_chunks\<close>.\<close>

record rpc_params =
  query_embedding :: "real list"
  match_threshold :: real
  match_count :: int

text \<open>
  The three outbound services are parameters of the model; each is called at most once
  per query, so a function of the request describes it. A call either raises or returns
  the part of the response the code reads:
  \<^item> \<open>embeddings_create input model\<close>: the \<open>embedding\<close> of each item of \<open>response.data\<close>;
  \<^item> \<open>rpc_execute name params\<close>: \<open>response.data\<close>, the list of records the declared type
    of \<open>get_llm_answer\<close> expects;
  \<^item> \<open>chat_completions_create model messages temperature\<close>: the \<open>message.content\<close> of
    each of \<open>response.choices\<close>, a text as the return type \<open>str\<close> of \<open>get_llm_answer\<close>
    declares.

  \<open>str_of\<close> is the text Python's string formatting gives a JSON value that is not
  itself a string (numbers, lists, nested dictionaries); a string is formatted as itself.
\<close>

record env =
  embeddings_create :: "string list \<Rightarrow> string \<Rightarrow> pyexn + real list list"
  rpc_execute :: "string \<Rightarrow> rpc_params \<Rightarrow> pyexn + pyval list"
  chat_completions_create :: "string \<Rightarrow> message list \<Rightarrow> real \<Rightarrow> pyexn + string list"
  str_of :: "pyval \<Rightarrow> string"

text \<open>
  What a run does to the outside, in order: the three outbound calls with their
  arguments, \<open>st.error(f"<prefix>{e}")\<close>, \<open>print(f"<prefix>{e}")\<close> and the rendering
  of a chat message (role and text).
\<close>

datatype event =
    EmbeddingsCreate "string list" string
  | RpcExecute string rpc_params
  | ChatCompletionsCreate string "message list" real
  | StError string pyexn
  | Print string pyexn
  | StMarkdown string string

definition py_format :: "env \<Rightarrow> pyval \<Rightarrow> string" where
  "py_format env v = (case v of PStr s \<Rightarrow> s | _ \<Rightarrow> str_of env v)"

section \<open>The retrieval functions\<close>

definition EMBEDDING_MODEL :: string where
  "EMBEDDING_MODEL = ''text-embedding-3-small''"

definition LLM_MODEL :: string where
  "LLM_MODEL = ''gpt-4o-mini''"

text \<open>
  \<open>get_query_embedding\<close>: everything happens inside \<open>try\<close>, so a raising call and an
  empty \<open>response.data\<close> (\<open>data[0]\<close> raises \<open>IndexError\<close>) both end in \<open>None\<close>.
\<close>

definition get_query_embedding :: "env \<Rightarrow> string \<Rightarrow> real list option \<times> event list" where
  "get_query_embedding env query_text =
     (let call = EmbeddingsCreate [query_text] EMBEDDING_MODEL;
          failed = (\<lambda>e. (None, [call, StError ''Fehler beim Erstellen des Query-Embeddings: '' e]))
      in case embeddings_create env [query_text] EMBEDDING_MODEL of
           Inl e \<Rightarrow> failed e
         | Inr data \<Rightarrow> (case data of [] \<Rightarrow> failed IndexError | d # _ \<Rightarrow> (Some d, [call])))"

definition find_similar_chunks :: "env \<Rightarrow> real list \<Rightarrow> pyval list \<times> event list" where
  "find_similar_chunks env embedding =
     (let params = \<lparr>query_embedding = embedding, match_threshold = 0.4, match_count = 5\<rparr>;
          call = RpcExecute ''match_nasdaq_chunks'' params
      in case rpc_execute env ''match_nasdaq_chunks'' params of
           Inl e \<Rightarrow> ([], [call, StError ''Fehler bei der Vektorsuche in Supabase: '' e])
         | Inr data \<Rightarrow> (data, [call]))"

section \<open>The answer generator\<close>

text \<open>
  Lines 108 to 110, the body of the inner \<open>try\<close>: the labels one chunk appends to
  \<open>sources\<close>, or the exception the metadata access raises. \<open>and\<close> does not evaluate
  its second operand when \<open>metadata\<close> is falsy.
\<close>

definition metadata_sources :: "env \<Rightarrow> pyval \<Rightarrow> pyexn + string list" where
  "metadata_sources env chunk =
     (case dict_get chunk ''metadata'' (PDict []) of
        Inl e \<Rightarrow> Inl e
      | Inr metadata \<Rightarrow>
          if \<not> truthy metadata then Inr []
          else (case dict_get metadata ''Ticker'' PNone of
                  Inl e \<Rightarrow> Inl e
                | Inr t \<Rightarrow>
                    if \<not> truthy t then Inr []
                    else (case dict_get metadata ''Ticker'' (PStr ''N/A'') of
                            Inl e \<Rightarrow> Inl e
                          | Inr ticker \<Rightarrow>
                              (case dict_get metadata ''Company'' (PStr ''N/A'') of
                                 Inl e \<Rightarrow> Inl e
                               | Inr company \<Rightarrow>
                                   Inr [py_format env ticker @ '' ('' @ py_format env company @ '')'']))))"

text \<open>The text one chunk content adds to \<open>context_text\<close> (line 103).\<close>

definition wrap_content :: "env \<Rightarrow> pyval \<Rightarrow> string" where
  "wrap_content env c = ''\<newline>---\<newline>'' @ py_format env c @ ''\<newline>---\<newline>''"

text \<open>
  The \<open>for\<close> loop of lines 101 to 113 over the remaining chunks, with the variables
  \<open>context_text\<close> and \<open>sources\<close> and the effects so far. \<open>chunk['content']\<close> stands
  before the inner \<open>try\<close>: its exception leaves the loop and the function. An exception
  of the metadata access is caught, printed, and the loop goes on.
\<close>

fun context_loop ::
  "env \<Rightarrow> pyval list \<Rightarrow> string \<Rightarrow> string list \<Rightarrow> event list
     \<Rightarrow> (pyexn + string \<times> string list) \<times> event list" where
  "context_loop env [] context_text sources evs = (Inr (context_text, sources), evs)"
| "context_loop env (chunk # rest) context_text sources evs =
     (case getitem chunk ''content'' of
        Inl e \<Rightarrow> (Inl e, evs)
      | Inr c \<Rightarrow>
          (case metadata_sources env chunk of
             Inl e \<Rightarrow>
               context_loop env rest (context_text @ wrap_content env c) sources
                 (evs @ [Print ''Fehler beim Parsen der Metadaten: '' e])
           | Inr labels \<Rightarrow>
               context_loop env rest (context_text @ wrap_content env c) (sources @ labels) evs))"

text \<open>The f-string of lines 116 to 124 around the context; umlauts are UTF-8 bytes.\<close>

definition prompt_head :: string where
  "prompt_head =
     ''\<newline>    Du bist ein Assistent f'' @ [CHR 0xC3, CHR 0xBC] @
     ''r Finanzanalysen, spezialisiert auf den Nasdaq-100.\<newline>'' @
     ''    Antworte auf die Frage des Benutzers basierend *ausschlie'' @ [CHR 0xC3, CHR 0x9F] @
     ''lich* auf dem folgenden Kontext.\<newline>'' @
     ''    Wenn der Kontext die Antwort nicht enth'' @ [CHR 0xC3, CHR 0xA4] @ ''lt, sage: '' @
     [CHR 0x22] @ ''Ich habe dazu keine Informationen in meiner Datenbank.'' @ [CHR 0x22] @
     ''\<newline>    Sei pr'' @ [CHR 0xC3, CHR 0xA4] @ ''zise und zitiere Fakten, wenn m'' @
     [CHR 0xC3, CHR 0xB6] @ ''glich.\<newline>\<newline>    Kontext:\<newline>    ''"

definition prompt_tail :: string where
  "prompt_tail = ''\<newline>    ''"

definition system_prompt :: "string \<Rightarrow> string" where
  "system_prompt context_text =
     prompt_head @ (if context_text \<noteq> [] then context_text else ''Kein Kontext gefunden.'')
       @ prompt_tail"

definition generation_error :: string where
  "generation_error = ''Es gab einen Fehler bei der Generierung der Antwort.''"

text \<open>
  \<open>get_llm_answer\<close>: the loop runs on the whole list (on the empty list it does
  nothing, as the guard \<open>if context_chunks\<close> has it). The model call, \<open>choices[0]\<close> and
  the appending of the sources are inside \<open>try\<close>; \<open>sorted(list(set(sources)))\<close> is the
  sorted list of the set of labels.
\<close>

definition get_llm_answer :: "env \<Rightarrow> string \<Rightarrow> pyval list \<Rightarrow> (pyexn + string) \<times> event list" where
  "get_llm_answer env query context_chunks =
     (case context_loop env context_chunks [] [] [] of
        (Inl e, evs) \<Rightarrow> (Inl e, evs)
      | (Inr (context_text, sources), evs) \<Rightarrow>
          (let messages = [\<lparr>role = ''system'', content = system_prompt context_text\<rparr>,
                           \<lparr>role = ''user'', content = query\<rparr>];
               call = ChatCompletionsCreate LLM_MODEL messages 0;
               failed = (\<lambda>e. (Inr generation_error,
                                evs @ [call, StError ''Fehler beim Aufruf des LLM: '' e]))
           in case chat_completions_create env LLM_MODEL messages 0 of
                Inl e \<Rightarrow> failed e
              | Inr choices \<Rightarrow>
                  (case choices of
                     [] \<Rightarrow> failed IndexError
                   | answer # _ \<Rightarrow>
                       (Inr (if sources \<noteq> []
                             then answer @ ''\<newline>\<newline>**Quellen:**\<newline>- ''
                                    @ join ''\<newline>- '' (sorted_list_of_set (set sources))
                             else answer),
                        evs @ [call]))))"

section \<open>The chat logic\<close>

definition embedding_failure :: string where
  "embedding_failure = ''Fehler: Konnte die Anfrage nicht verarbeiten.''"

text \<open>
  Lines 169 to 191, run for one submitted query on the history \<open>messages\<close> of the
  session. \<open>if query_embedding\<close> is false for \<open>None\<close> and for an empty vector. The
  result is the answer, or the exception that left \<open>get_llm_answer\<close> (the assistant turn
  is then neither rendered nor stored), with the new history and the effects.
\<close>

definition chat_logic ::
  "env \<Rightarrow> message list \<Rightarrow> string \<Rightarrow> (pyexn + string) \<times> message list \<times> event list" where
  "chat_logic env messages query =
     (let messages1 = messages @ [\<lparr>role = ''user'', content = query\<rparr>];
          ev0 = [StMarkdown ''user'' query];
          finish = (\<lambda>answer evs.
            (Inr answer, messages1 @ [\<lparr>role = ''assistant'', content = answer\<rparr>],
             evs @ [StMarkdown ''assistant'' answer]));
          (query_embedding, ev1) = get_query_embedding env query
      in case query_embedding of
           Some (x # xs) \<Rightarrow>
             (let (relevant_chunks, ev2) = find_similar_chunks env (x # xs);
                  (r, ev3) = get_llm_answer env query relevant_chunks
              in case r of
                   Inl e \<Rightarrow> (Inl e, messages1, ev0 @ ev1 @ ev2 @ ev3)
                 | Inr answer \<Rightarrow> finish answer (ev0 @ ev1 @ ev2 @ ev3))
         | _ \<Rightarrow> finish embedding_failure (ev0 @ ev1))"

section \<open>The source labels as the specification words them\<close>

text \<open>
  A chunk whose metadata is a mapping with a non-empty (truthy) \<open>Ticker\<close> gives the
  one label \<open>"{ticker} ({company})"\<close>, the company being \<open>N/A\<close> when the mapping has no
  \<open>Company\<close>; every other chunk gives no label.
\<close>

definition label_spec :: "env \<Rightarrow> pyval \<Rightarrow> string list" where
  "label_spec env chunk =
     (case chunk of
        PDict kvs \<Rightarrow>
          (case map_of kvs ''metadata'' of
             Some (PDict md) \<Rightarrow>
               (case map_of md ''Ticker'' of
                  Some ticker \<Rightarrow>
                    if truthy ticker
                    then [py_format env ticker @ '' ('' @
                            (case map_of md ''Company'' of
                               None \<Rightarrow> ''N/A''
                             | Some company \<Rightarrow> py_format env company) @ '')'']
                    else []
                | None \<Rightarrow> [])
           | _ \<Rightarrow> [])
      | _ \<Rightarrow> [])"

section \<open>Sample data\<close>

definition msft_chunk :: pyval where
  "msft_chunk = PDict [(''content'', PStr ''Microsoft runs Azure.''),
     (''similarity'', PFloat 0.8),
     (''metadata'', PDict [(''Ticker'', PStr ''MSFT''), (''Company'', PStr ''Microsoft'')])]"

definition aapl_chunk :: pyval where
  "aapl_chunk = PDict [(''content'', PStr ''Apple focuses on hardware-software integration.''),
     (''similarity'', PFloat 0.7),
     (''metadata'', PDict [(''Ticker'', PStr ''AAPL''), (''Company'', PStr ''Apple Inc.'')])]"

text \<open>A ticker without a company, no ticker at all, and metadata that is a string.\<close>

definition nvda_chunk :: pyval where
  "nvda_chunk = PDict [(''content'', PStr ''Nvidia designs GPUs.''),
     (''metadata'', PDict [(''Ticker'', PStr ''NVDA'')])]"

definition plain_chunk :: pyval where
  "plain_chunk = PDict [(''content'', PStr ''The index holds 100 companies.''),
     (''metadata'', PDict [(''Sector'', PStr ''Index'')])]"

definition text_metadata_chunk :: pyval where
  "text_metadata_chunk = PDict [(''content'', PStr ''Tesla builds cars.''),
     (''metadata'', PStr ''{Ticker: TSLA}'')]"

text \<open>A record without \<open>content\<close>.\<close>

definition headless_chunk :: pyval where
  "headless_chunk = PDict [(''metadata'', PDict [(''Ticker'', PStr ''AMZN'')])]"

text \<open>
  A run where every service answers: the store returns the tickers MSFT, AAPL, MSFT and
  the model returns one choice.
\<close>

definition sample_env :: env where
  "sample_env =
     \<lparr>embeddings_create = (\<lambda>input model. Inr [[0.25, -0.5]]),
      rpc_execute = (\<lambda>name params. Inr [msft_chunk, aapl_chunk, msft_chunk]),
      chat_completions_create = (\<lambda>model messages temperature. Inr [''Azure and hardware.'']),
      str_of = (\<lambda>v. ''<value>'')\<rparr>"

definition embedding_down_env :: env where
  "embedding_down_env =
     sample_env\<lparr>embeddings_create := (\<lambda>input model. Inl (ServiceError ''quota exceeded''))\<rparr>"

definition store_down_env :: env where
  "store_down_env =
     sample_env\<lparr>rpc_execute := (\<lambda>name params. Inl (ServiceError ''connection refused''))\<rparr>"

definition llm_down_env :: env where
  "llm_down_env =
     sample_env\<lparr>chat_completions_create :=
       (\<lambda>model messages temperature. Inl (ServiceError ''rate limit''))\<rparr>"

section \<open>Properties of the context loop\<close>

lemma metadata_sources_label_spec:
  "(case metadata_sources env chunk of Inl e \<Rightarrow> [] | Inr labels \<Rightarrow> labels) = label_spec env chunk"
proof (cases chunk)
  case (PDict kvs)
  show ?thesis
  proof (cases "map_of kvs ''metadata''")
    case None
    with PDict show ?thesis by (simp add: metadata_sources_def label_spec_def)
  next
    case (Some metadata)
    with PDict show ?thesis
      by (cases metadata)
         (simp_all add: metadata_sources_def label_spec_def py_format_def split: option.splits)
  qed
qed (simp_all add: metadata_sources_def label_spec_def)

lemma context_loop_succeeds:
  "map (\<lambda>c. getitem c ''content'') chunks = map Inr vals \<Longrightarrow>
   fst (context_loop env chunks ctx srcs evs) =
     Inr (ctx @ concat (map (wrap_content env) vals), srcs @ concat (map (label_spec env) chunks))"
proof (induction chunks arbitrary: vals ctx srcs evs)
  case Nil
  then show ?case by simp
next
  case (Cons c cs)
  then obtain v vs where vals: "vals = v # vs" and v: "getitem c ''content'' = Inr v"
    and vs: "map (\<lambda>c. getitem c ''content'') cs = map Inr vs"
    by (cases vals) auto
  show ?case
  proof (cases "metadata_sources env c")
    case (Inl e)
    with metadata_sources_label_spec [of env c] have "label_spec env c = []" by simp
    with Inl v vals Cons.IH [OF vs] show ?thesis by simp
  next
    case (Inr labels)
    with metadata_sources_label_spec [of env c] have "label_spec env c = labels" by simp
    with Inr v vals Cons.IH [OF vs] show ?thesis by simp
  qed
qed

lemma context_loop_aborts:
  "c \<in> set chunks \<Longrightarrow> \<forall>v. getitem c ''content'' \<noteq> Inr v \<Longrightarrow>
   \<exists>e. fst (context_loop env chunks ctx srcs evs) = Inl e \<and> (e = TypeError \<or> e = KeyError ''content'')"
proof (induction chunks arbitrary: ctx srcs evs)
  case Nil
  then show ?case by simp
next
  case (Cons d ds)
  show ?case
  proof (cases "getitem d ''content''")
    case (Inl e)
    then have "e = TypeError \<or> e = KeyError ''content''"
      by (cases d) (auto split: option.splits)
    with Inl show ?thesis by simp
  next
    case (Inr v)
    with Cons.prems have "c \<in> set ds" by auto
    from Cons.IH [OF this Cons.prems(2)] Inr show ?thesis
      by (simp split: sum.splits)
  qed
qed

lemma context_loop_events:
  "\<exists>es. snd (context_loop env chunks ctx srcs evs) =
         evs @ map (Print ''Fehler beim Parsen der Metadaten: '') es"
proof (induction chunks arbitrary: ctx srcs evs)
  case Nil
  show ?case by (rule exI [of _ "[]"]) simp
next
  case (Cons c cs)
  show ?case
  proof (cases "getitem c ''content''")
    case (Inl e)
    then show ?thesis by (intro exI [of _ "[]"]) simp
  next
    case v: (Inr v)
    show ?thesis
    proof (cases "metadata_sources env c")
      case (Inl e)
      obtain es where "snd (context_loop env cs (ctx @ wrap_content env v) srcs
          (evs @ [Print ''Fehler beim Parsen der Metadaten: '' e])) =
          (evs @ [Print ''Fehler beim Parsen der Metadaten: '' e]) @
            map (Print ''Fehler beim Parsen der Metadaten: '') es"
        using Cons.IH by blast
      then show ?thesis
        using Inl v by (intro exI [of _ "e # es"]) simp
    next
      case (Inr labels)
      then show ?thesis
        using Cons.IH v by simp
    qed
  qed
qed

lemma context_loop_no_calls:
  "ev \<in> set (snd (context_loop env chunks [] [] [])) \<Longrightarrow> \<exists>e. ev = Print ''Fehler beim Parsen der Metadaten: '' e"
  using context_loop_events [of env chunks "[]" "[]" "[]"] by auto

text \<open>The loop reads the environment only through the formatting of values.\<close>

lemma py_format_env: "str_of env' = str_of env \<Longrightarrow> py_format env' = py_format env"
  by (rule ext) (simp add: py_format_def split: pyval.splits)

lemma metadata_sources_env:
  assumes "str_of env' = str_of env"
  shows "metadata_sources env' = metadata_sources env"
  unfolding metadata_sources_def py_format_env [OF assms] ..

lemma wrap_content_env:
  assumes "str_of env' = str_of env"
  shows "wrap_content env' = wrap_content env"
  unfolding wrap_content_def py_format_env [OF assms] ..

lemma context_loop_env:
  assumes "str_of env' = str_of env"
  shows "context_loop env' chunks ctx srcs evs = context_loop env chunks ctx srcs evs"
proof (induction chunks arbitrary: ctx srcs evs)
  case Nil
  show ?case by simp
next
  case (Cons c cs)
  show ?case
    unfolding context_loop.simps metadata_sources_env [OF assms] wrap_content_env [OF assms] Cons.IH ..
qed

lemma get_llm_answer_env:
  assumes "str_of env' = str_of env"
    and "chat_completions_create env' = chat_completions_create env"
  shows "get_llm_answer env' query chunks = get_llm_answer env query chunks"
  unfolding get_llm_answer_def context_loop_env [OF assms(1)] assms(2) ..

lemma get_query_embedding_env:
  assumes "embeddings_create env' = embeddings_create env"
  shows "get_query_embedding env' query = get_query_embedding env query"
  unfolding get_query_embedding_def assms ..

lemma get_query_embedding_events:
  assumes "ev \<in> set (snd (get_query_embedding env query))"
  shows "ev = EmbeddingsCreate [query] EMBEDDING_MODEL \<or>
         (\<exists>e. ev = StError ''Fehler beim Erstellen des Query-Embeddings: '' e)"
proof (cases "embeddings_create env [query] EMBEDDING_MODEL")
  case (Inl e)
  with assms show ?thesis by (auto simp: get_query_embedding_def)
next
  case (Inr data)
  with assms show ?thesis by (cases data) (auto simp: get_query_embedding_def)
qed

lemma get_query_embedding_provider_failure:
  "embeddings_create env [query] EMBEDDING_MODEL = Inl e \<Longrightarrow>
   get_query_embedding env query =
     (None, [EmbeddingsCreate [query] EMBEDDING_MODEL,
             StError ''Fehler beim Erstellen des Query-Embeddings: '' e])"
  by (simp add: get_query_embedding_def)

section \<open>The two branches of the chat logic\<close>

lemma chat_logic_short_circuit:
  assumes "fst (get_query_embedding env query) = None \<or> fst (get_query_embedding env query) = Some []"
  shows "chat_logic env messages query =
     (Inr embedding_failure,
      messages @ [\<lparr>role = ''user'', content = query\<rparr>,
                  \<lparr>role = ''assistant'', content = embedding_failure\<rparr>],
      StMarkdown ''user'' query # snd (get_query_embedding env query)
        @ [StMarkdown ''assistant'' embedding_failure])"
  using assms by (cases "get_query_embedding env query") (auto simp: chat_logic_def)

lemma chat_logic_retrieval:
  assumes "fst (get_query_embedding env query) = Some emb" and "emb \<noteq> []"
  shows "chat_logic env messages query =
     (let evs = StMarkdown ''user'' query # snd (get_query_embedding env query)
                  @ snd (find_similar_chunks env emb)
                  @ snd (get_llm_answer env query (fst (find_similar_chunks env emb)))
      in case fst (get_llm_answer env query (fst (find_similar_chunks env emb))) of
           Inl e \<Rightarrow> (Inl e, messages @ [\<lparr>role = ''user'', content = query\<rparr>], evs)
         | Inr answer \<Rightarrow>
             (Inr answer,
              messages @ [\<lparr>role = ''user'', content = query\<rparr>,
                          \<lparr>role = ''assistant'', content = answer\<rparr>],
              evs @ [StMarkdown ''assistant'' answer]))"
proof -
  obtain x xs where emb: "emb = x # xs" using assms(2) by (cases emb) auto
  obtain ev1 where q: "get_query_embedding env query = (Some (x # xs), ev1)"
    using assms(1) emb by (cases "get_query_embedding env query") auto
  obtain chunks ev2 where f: "find_similar_chunks env (x # xs) = (chunks, ev2)"
    by (cases "find_similar_chunks env (x # xs)") auto
  obtain r ev3 where g: "get_llm_answer env query chunks = (r, ev3)"
    by (cases "get_llm_answer env query chunks") auto
  show ?thesis
    by (cases r) (simp_all add: chat_logic_def emb q f g)
qed

lemma find_similar_chunks_events:
  "ev \<in> set (snd (find_similar_chunks env emb)) \<Longrightarrow>
   ev = RpcExecute ''match_nasdaq_chunks''
          \<lparr>query_embedding = emb, match_threshold = 0.4, match_count = 5\<rparr> \<or>
   (\<exists>e. ev = StError ''Fehler bei der Vektorsuche in Supabase: '' e)"
  by (auto simp: find_similar_chunks_def Let_def split: sum.splits)

lemma get_llm_answer_events:
  assumes "ev \<in> set (snd (get_llm_answer env query chunks))"
  shows "(\<exists>e. ev = Print ''Fehler beim Parsen der Metadaten: '' e) \<or>
         (\<exists>e. ev = StError ''Fehler beim Aufruf des LLM: '' e) \<or>
         (\<exists>context_text sources.
            fst (context_loop env chunks [] [] []) = Inr (context_text, sources) \<and>
            ev = ChatCompletionsCreate LLM_MODEL
                   [\<lparr>role = ''system'', content = system_prompt context_text\<rparr>,
                    \<lparr>role = ''user'', content = query\<rparr>] 0)"
proof (cases "context_loop env chunks [] [] []")
  case (Pair r evs)
  have prints: "\<And>x. x \<in> set evs \<Longrightarrow> \<exists>e. x = Print ''Fehler beim Parsen der Metadaten: '' e"
    using context_loop_no_calls [of _ env chunks] Pair by simp
  show ?thesis
  proof (cases r)
    case (Inl e)
    with Pair assms prints show ?thesis by (simp add: get_llm_answer_def)
  next
    case (Inr cs)
    obtain context_text sources where cs: "cs = (context_text, sources)" by (cases cs)
    show ?thesis
    proof (cases "chat_completions_create env LLM_MODEL
        [\<lparr>role = ''system'', content = system_prompt context_text\<rparr>,
         \<lparr>role = ''user'', content = query\<rparr>] 0")
      case (Inl e)
      with Pair Inr cs assms prints show ?thesis
        by (auto simp: get_llm_answer_def)
    next
      case choices: (Inr choices)
      with Pair Inr cs assms prints show ?thesis
        by (cases choices) (auto simp: get_llm_answer_def)
    qed
  qed
qed

section \<open>Embedding failure\<close>

text \<open>
  C1. When \<open>get_query_embedding\<close> returns the failure value \<open>None\<close> (as it does when
  the embedding provider raises), the answer of the chat logic is the fixed string
  \<open>Fehler: Konnte die Anfrage nicht verarbeiten.\<close>, the effects are the rendering of the
  query, those of the embedding and the rendering of that answer, so no call of the vector
  store and no call of the language model occurs, and the outcome does not depend on what
  these two services would have answered.
\<close>

theorem embedding_failure_short_circuits:
  assumes "fst (get_query_embedding env query) = None"
  shows "fst (chat_logic env messages query) = Inr ''Fehler: Konnte die Anfrage nicht verarbeiten.''
    \<and> snd (snd (chat_logic env messages query)) =
        StMarkdown ''user'' query # snd (get_query_embedding env query)
          @ [StMarkdown ''assistant'' ''Fehler: Konnte die Anfrage nicht verarbeiten.'']
    \<and> (\<forall>name params. RpcExecute name params \<notin> set (snd (snd (chat_logic env messages query))))
    \<and> (\<forall>model msgs t.
          ChatCompletionsCreate model msgs t \<notin> set (snd (snd (chat_logic env messages query))))
    \<and> (\<forall>store llm.
          chat_logic (env\<lparr>rpc_execute := store, chat_completions_create := llm\<rparr>) messages query
            = chat_logic env messages query)"
proof -
  have run: "chat_logic env messages query =
     (Inr embedding_failure,
      messages @ [\<lparr>role = ''user'', content = query\<rparr>,
                  \<lparr>role = ''assistant'', content = embedding_failure\<rparr>],
      StMarkdown ''user'' query # snd (get_query_embedding env query)
        @ [StMarkdown ''assistant'' embedding_failure])"
    using assms by (intro chat_logic_short_circuit) simp
  have no_rpc: "RpcExecute name params \<notin> set (snd (snd (chat_logic env messages query)))"
    for name params
    using get_query_embedding_events [of "RpcExecute name params" env query]
    by (auto simp: run)
  have no_chat: "ChatCompletionsCreate model msgs t \<notin> set (snd (snd (chat_logic env messages query)))"
    for model msgs t
    using get_query_embedding_events [of "ChatCompletionsCreate model msgs t" env query]
    by (auto simp: run)
  have same: "chat_logic (env\<lparr>rpc_execute := store, chat_completions_create := llm\<rparr>) messages query
      = chat_logic env messages query" for store llm
  proof -
    let ?env' = "env\<lparr>rpc_execute := store, chat_completions_create := llm\<rparr>"
    have e: "get_query_embedding ?env' query = get_query_embedding env query"
      by (rule get_query_embedding_env) simp
    have "chat_logic ?env' messages query =
     (Inr embedding_failure,
      messages @ [\<lparr>role = ''user'', content = query\<rparr>,
                  \<lparr>role = ''assistant'', content = embedding_failure\<rparr>],
      StMarkdown ''user'' query # snd (get_query_embedding ?env' query)
        @ [StMarkdown ''assistant'' embedding_failure])"
      using assms e by (intro chat_logic_short_circuit) simp
    then show ?thesis by (simp only: e run)
  qed
  from run no_rpc no_chat same show ?thesis
    by (simp add: embedding_failure_def)
qed

theorem embedding_failure_short_circuits_witness:
  "embeddings_create embedding_down_env [''What is the strategy of Apple?''] EMBEDDING_MODEL
     = Inl (ServiceError ''quota exceeded'')
   \<and> fst (get_query_embedding embedding_down_env ''What is the strategy of Apple?'') = None
   \<and> chat_logic embedding_down_env [] ''What is the strategy of Apple?'' =
       (Inr ''Fehler: Konnte die Anfrage nicht verarbeiten.'',
        [\<lparr>role = ''user'', content = ''What is the strategy of Apple?''\<rparr>,
         \<lparr>role = ''assistant'', content = ''Fehler: Konnte die Anfrage nicht verarbeiten.''\<rparr>],
        [StMarkdown ''user'' ''What is the strategy of Apple?'',
         EmbeddingsCreate [''What is the strategy of Apple?''] ''text-embedding-3-small'',
         StError ''Fehler beim Erstellen des Query-Embeddings: '' (ServiceError ''quota exceeded''),
         StMarkdown ''assistant'' ''Fehler: Konnte die Anfrage nicht verarbeiten.''])
   \<and> (\<forall>name params. RpcExecute name params \<notin>
         set (snd (snd (chat_logic embedding_down_env [] ''What is the strategy of Apple?''))))
   \<and> (\<forall>model msgs t. ChatCompletionsCreate model msgs t \<notin>
         set (snd (snd (chat_logic embedding_down_env [] ''What is the strategy of Apple?''))))"
proof -
  have down: "embeddings_create embedding_down_env [''What is the strategy of Apple?''] EMBEDDING_MODEL
     = Inl (ServiceError ''quota exceeded'')"
    by (simp add: embedding_down_env_def sample_env_def)
  have none: "fst (get_query_embedding embedding_down_env ''What is the strategy of Apple?'') = None"
    by (simp add: get_query_embedding_provider_failure [OF down])
  have run: "chat_logic embedding_down_env [] ''What is the strategy of Apple?'' =
       (Inr ''Fehler: Konnte die Anfrage nicht verarbeiten.'',
        [\<lparr>role = ''user'', content = ''What is the strategy of Apple?''\<rparr>,
         \<lparr>role = ''assistant'', content = ''Fehler: Konnte die Anfrage nicht verarbeiten.''\<rparr>],
        [StMarkdown ''user'' ''What is the strategy of Apple?'',
         EmbeddingsCreate [''What is the strategy of Apple?''] ''text-embedding-3-small'',
         StError ''Fehler beim Erstellen des Query-Embeddings: '' (ServiceError ''quota exceeded''),
         StMarkdown ''assistant'' ''Fehler: Konnte die Anfrage nicht verarbeiten.''])"
    by (simp add: chat_logic_def get_query_embedding_provider_failure [OF down]
        embedding_failure_def EMBEDDING_MODEL_def)
  from embedding_failure_short_circuits [OF none, of "[]"] down none run show ?thesis
    by blast
qed

section \<open>Retrieval\<close>

text \<open>
  C2. When the store answers the search with the sequence \<open>data\<close>, \<open>find_similar_chunks\<close>
  returns \<open>data\<close> itself (same elements, same count, same order) after one call of
  \<open>match_nasdaq_chunks\<close> with the query vector, the threshold 0.4 and the limit 5; the
  chat logic hands exactly this sequence to \<open>get_llm_answer\<close>, and no other call of the
  store occurs in the run.
\<close>

theorem chunks_passed_unchanged:
  assumes "fst (get_query_embedding env query) = Some emb" and "emb \<noteq> []"
    and "rpc_execute env ''match_nasdaq_chunks''
           \<lparr>query_embedding = emb, match_threshold = 0.4, match_count = 5\<rparr> = Inr data"
  shows "find_similar_chunks env emb =
           (data, [RpcExecute ''match_nasdaq_chunks''
                     \<lparr>query_embedding = emb, match_threshold = 0.4, match_count = 5\<rparr>])
    \<and> fst (chat_logic env messages query) = fst (get_llm_answer env query data)
    \<and> snd (snd (chat_logic env messages query)) =
          StMarkdown ''user'' query # snd (get_query_embedding env query)
            @ [RpcExecute ''match_nasdaq_chunks''
                 \<lparr>query_embedding = emb, match_threshold = 0.4, match_count = 5\<rparr>]
            @ snd (get_llm_answer env query data)
            @ (case fst (get_llm_answer env query data) of
                 Inl e \<Rightarrow> []
               | Inr answer \<Rightarrow> [StMarkdown ''assistant'' answer])
    \<and> (\<forall>name params. RpcExecute name params \<in> set (snd (snd (chat_logic env messages query)))
          \<longrightarrow> name = ''match_nasdaq_chunks'' \<and> query_embedding params = emb
              \<and> match_threshold params = 0.4 \<and> match_count params = 5)"
proof -
  let ?call = "RpcExecute ''match_nasdaq_chunks''
                 \<lparr>query_embedding = emb, match_threshold = 0.4, match_count = 5\<rparr>"
  have search: "find_similar_chunks env emb = (data, [?call])"
    using assms(3) by (simp add: find_similar_chunks_def)
  have run: "chat_logic env messages query =
     (let evs = StMarkdown ''user'' query # snd (get_query_embedding env query)
                  @ [?call] @ snd (get_llm_answer env query data)
      in case fst (get_llm_answer env query data) of
           Inl e \<Rightarrow> (Inl e, messages @ [\<lparr>role = ''user'', content = query\<rparr>], evs)
         | Inr answer \<Rightarrow>
             (Inr answer,
              messages @ [\<lparr>role = ''user'', content = query\<rparr>,
                          \<lparr>role = ''assistant'', content = answer\<rparr>],
              evs @ [StMarkdown ''assistant'' answer]))"
    using chat_logic_retrieval [OF assms(1,2), of messages] by (simp add: search)
  have answer: "fst (chat_logic env messages query) = fst (get_llm_answer env query data)"
    by (cases "fst (get_llm_answer env query data)") (simp_all add: run)
  have trace: "snd (snd (chat_logic env messages query)) =
          StMarkdown ''user'' query # snd (get_query_embedding env query)
            @ [?call] @ snd (get_llm_answer env query data)
            @ (case fst (get_llm_answer env query data) of
                 Inl e \<Rightarrow> []
               | Inr answer \<Rightarrow> [StMarkdown ''assistant'' answer])"
    by (cases "fst (get_llm_answer env query data)") (simp_all add: run)
  have only: "name = ''match_nasdaq_chunks'' \<and> query_embedding params = emb
      \<and> match_threshold params = 0.4 \<and> match_count params = 5"
    if "RpcExecute name params \<in> set (snd (snd (chat_logic env messages query)))"
    for name params
  proof -
    from that consider
        "RpcExecute name params \<in> set (snd (get_query_embedding env query))"
      | "RpcExecute name params = ?call"
      | "RpcExecute name params \<in> set (snd (get_llm_answer env query data))"
      unfolding trace by (auto split: sum.splits)
    then show ?thesis
    proof cases
      case 1
      from get_query_embedding_events [OF this] show ?thesis by simp
    next
      case 2
      then show ?thesis by simp
    next
      case 3
      from get_llm_answer_events [OF this] show ?thesis by auto
    qed
  qed
  from search answer trace only show ?thesis by blast
qed

theorem chunks_passed_unchanged_witness:
  "fst (get_query_embedding sample_env ''Who runs Azure?'') = Some [0.25, -0.5]
   \<and> [0.25, -0.5] \<noteq> ([] :: real list)
   \<and> rpc_execute sample_env ''match_nasdaq_chunks''
        \<lparr>query_embedding = [0.25, -0.5], match_threshold = 0.4, match_count = 5\<rparr>
        = Inr [msft_chunk, aapl_chunk, msft_chunk]
   \<and> find_similar_chunks sample_env [0.25, -0.5] =
        ([msft_chunk, aapl_chunk, msft_chunk],
         [RpcExecute ''match_nasdaq_chunks''
            \<lparr>query_embedding = [0.25, -0.5], match_threshold = 0.4, match_count = 5\<rparr>])
   \<and> fst (chat_logic sample_env [] ''Who runs Azure?'') =
        fst (get_llm_answer sample_env ''Who runs Azure?'' [msft_chunk, aapl_chunk, msft_chunk])"
proof -
  have emb: "fst (get_query_embedding sample_env ''Who runs Azure?'') = Some [0.25, -0.5]"
    by (simp add: get_query_embedding_def sample_env_def)
  have ne: "[0.25, -0.5] \<noteq> ([] :: real list)" by simp
  have store: "rpc_execute sample_env ''match_nasdaq_chunks''
        \<lparr>query_embedding = [0.25, -0.5], match_threshold = 0.4, match_count = 5\<rparr>
        = Inr [msft_chunk, aapl_chunk, msft_chunk]"
    by (simp add: sample_env_def)
  from chunks_passed_unchanged [OF emb ne store, of "[]"] emb ne store show ?thesis
    by blast
qed

text \<open>
  C6. When the call of the store raises, \<open>find_similar_chunks\<close> returns the empty
  sequence instead of the exception (after reporting the error). The chat logic goes on
  to \<open>get_llm_answer\<close> with no chunks, the model is called with the placeholder context,
  and answer and history are those of a run whose store found nothing.
\<close>

theorem store_failure_is_empty_result:
  assumes "rpc_execute env ''match_nasdaq_chunks''
             \<lparr>query_embedding = emb, match_threshold = 0.4, match_count = 5\<rparr> = Inl e"
  shows "find_similar_chunks env emb =
           ([], [RpcExecute ''match_nasdaq_chunks''
                   \<lparr>query_embedding = emb, match_threshold = 0.4, match_count = 5\<rparr>,
                 StError ''Fehler bei der Vektorsuche in Supabase: '' e])
    \<and> fst (find_similar_chunks (env\<lparr>rpc_execute := \<lambda>name params. Inr []\<rparr>) emb) = []
    \<and> (fst (get_query_embedding env query) = Some emb \<and> emb \<noteq> [] \<longrightarrow>
          fst (chat_logic env messages query) = fst (get_llm_answer env query [])
        \<and> ChatCompletionsCreate LLM_MODEL
             [\<lparr>role = ''system'', content = system_prompt []\<rparr>,
              \<lparr>role = ''user'', content = query\<rparr>] 0
             \<in> set (snd (snd (chat_logic env messages query)))
        \<and> fst (chat_logic env messages query) =
            fst (chat_logic (env\<lparr>rpc_execute := \<lambda>name params. Inr []\<rparr>) messages query)
        \<and> fst (snd (chat_logic env messages query)) =
            fst (snd (chat_logic (env\<lparr>rpc_execute := \<lambda>name params. Inr []\<rparr>) messages query)))"
proof -
  let ?env0 = "env\<lparr>rpc_execute := \<lambda>name params. Inr []\<rparr>"
  have search: "find_similar_chunks env emb =
           ([], [RpcExecute ''match_nasdaq_chunks''
                   \<lparr>query_embedding = emb, match_threshold = 0.4, match_count = 5\<rparr>,
                 StError ''Fehler bei der Vektorsuche in Supabase: '' e])"
    using assms by (simp add: find_similar_chunks_def)
  have search0: "fst (find_similar_chunks ?env0 emb) = []"
    by (simp add: find_similar_chunks_def)
  have q0: "get_query_embedding ?env0 query = get_query_embedding env query"
    by (rule get_query_embedding_env) simp
  have g0: "get_llm_answer ?env0 query [] = get_llm_answer env query []"
    by (rule get_llm_answer_env) simp_all
  have call: "ChatCompletionsCreate LLM_MODEL
         [\<lparr>role = ''system'', content = system_prompt []\<rparr>, \<lparr>role = ''user'', content = query\<rparr>] 0
         \<in> set (snd (get_llm_answer env query []))"
    by (simp add: get_llm_answer_def Let_def split: sum.splits list.splits)
  have pipeline: "fst (chat_logic env messages query) = fst (get_llm_answer env query [])
        \<and> ChatCompletionsCreate LLM_MODEL
             [\<lparr>role = ''system'', content = system_prompt []\<rparr>,
              \<lparr>role = ''user'', content = query\<rparr>] 0
             \<in> set (snd (snd (chat_logic env messages query)))
        \<and> fst (chat_logic env messages query) = fst (chat_logic ?env0 messages query)
        \<and> fst (snd (chat_logic env messages query)) = fst (snd (chat_logic ?env0 messages query))"
    if embedded: "fst (get_query_embedding env query) = Some emb" and nonempty: "emb \<noteq> []"
  proof -
    have run: "chat_logic env messages query =
       (let evs = StMarkdown ''user'' query # snd (get_query_embedding env query)
                    @ snd (find_similar_chunks env emb) @ snd (get_llm_answer env query [])
        in case fst (get_llm_answer env query []) of
             Inl e \<Rightarrow> (Inl e, messages @ [\<lparr>role = ''user'', content = query\<rparr>], evs)
           | Inr answer \<Rightarrow>
               (Inr answer,
                messages @ [\<lparr>role = ''user'', content = query\<rparr>,
                            \<lparr>role = ''assistant'', content = answer\<rparr>],
                evs @ [StMarkdown ''assistant'' answer]))"
      using chat_logic_retrieval [OF embedded nonempty, of messages] by (simp add: search)
    have run0: "chat_logic ?env0 messages query =
       (let evs = StMarkdown ''user'' query # snd (get_query_embedding env query)
                    @ snd (find_similar_chunks ?env0 emb) @ snd (get_llm_answer env query [])
        in case fst (get_llm_answer env query []) of
             Inl e \<Rightarrow> (Inl e, messages @ [\<lparr>role = ''user'', content = query\<rparr>], evs)
           | Inr answer \<Rightarrow>
               (Inr answer,
                messages @ [\<lparr>role = ''user'', content = query\<rparr>,
                            \<lparr>role = ''assistant'', content = answer\<rparr>],
                evs @ [StMarkdown ''assistant'' answer]))"
      using chat_logic_retrieval [of ?env0 query emb messages] embedded nonempty
      by (simp add: q0 g0 search0)
    have answer: "fst (chat_logic env messages query) = fst (get_llm_answer env query [])"
      by (cases "fst (get_llm_answer env query [])") (simp_all add: run)
    have made: "ChatCompletionsCreate LLM_MODEL
           [\<lparr>role = ''system'', content = system_prompt []\<rparr>, \<lparr>role = ''user'', content = query\<rparr>] 0
           \<in> set (snd (snd (chat_logic env messages query)))"
      using call by (cases "fst (get_llm_answer env query [])") (simp_all add: run)
    have same: "fst (chat_logic env messages query) = fst (chat_logic ?env0 messages query)"
      by (cases "fst (get_llm_answer env query [])") (simp_all add: run run0)
    have history: "fst (snd (chat_logic env messages query)) =
        fst (snd (chat_logic ?env0 messages query))"
      by (cases "fst (get_llm_answer env query [])") (simp_all add: run run0)
    from answer made same history show ?thesis by blast
  qed
  from search search0 pipeline show ?thesis by blast
qed

theorem store_failure_is_empty_result_witness:
  "rpc_execute store_down_env ''match_nasdaq_chunks''
     \<lparr>query_embedding = [0.25, -0.5], match_threshold = 0.4, match_count = 5\<rparr>
     = Inl (ServiceError ''connection refused'')
   \<and> fst (get_query_embedding store_down_env ''Who runs Azure?'') = Some [0.25, -0.5]
   \<and> [0.25, -0.5] \<noteq> ([] :: real list)
   \<and> fst (find_similar_chunks store_down_env [0.25, -0.5]) = []
   \<and> fst (chat_logic store_down_env [] ''Who runs Azure?'') = Inr ''Azure and hardware.''
   \<and> fst (chat_logic (store_down_env\<lparr>rpc_execute := \<lambda>name params. Inr []\<rparr>) []
        ''Who runs Azure?'') = Inr ''Azure and hardware.''"
proof -
  have down: "rpc_execute store_down_env ''match_nasdaq_chunks''
     \<lparr>query_embedding = [0.25, -0.5], match_threshold = 0.4, match_count = 5\<rparr>
     = Inl (ServiceError ''connection refused'')"
    by (simp add: store_down_env_def sample_env_def)
  have emb: "fst (get_query_embedding store_down_env ''Who runs Azure?'') = Some [0.25, -0.5]"
    by (simp add: get_query_embedding_def store_down_env_def sample_env_def)
  have ne: "[0.25, -0.5] \<noteq> ([] :: real list)" by simp
  have gen: "fst (get_llm_answer store_down_env ''Who runs Azure?'' []) = Inr ''Azure and hardware.''"
    by (simp add: get_llm_answer_def store_down_env_def sample_env_def)
  note run = store_failure_is_empty_result
    [OF down, of "''Who runs Azure?''" "[]", THEN conjunct2, THEN conjunct2, rule_format, OF conjI, OF emb ne]
  note search = store_failure_is_empty_result [OF down, of "''Who runs Azure?''" "[]", THEN conjunct1]
  from search have empty: "fst (find_similar_chunks store_down_env [0.25, -0.5]) = []"
    by simp
  from run have answer: "fst (chat_logic store_down_env [] ''Who runs Azure?'') =
      fst (get_llm_answer store_down_env ''Who runs Azure?'' [])"
    by blast
  from run have same: "fst (chat_logic store_down_env [] ''Who runs Azure?'') =
      fst (chat_logic (store_down_env\<lparr>rpc_execute := \<lambda>name params. Inr []\<rparr>) []
        ''Who runs Azure?'')"
    by blast
  from same answer gen have zero: "fst (chat_logic
      (store_down_env\<lparr>rpc_execute := \<lambda>name params. Inr []\<rparr>) [] ''Who runs Azure?'')
      = Inr ''Azure and hardware.''"
    by simp
  from answer gen have "fst (chat_logic store_down_env [] ''Who runs Azure?'')
      = Inr ''Azure and hardware.''"
    by simp
  with down emb ne empty zero show ?thesis
    by blast
qed

section \<open>Context assembly\<close>

lemma get_llm_answer_call_made:
  assumes "fst (context_loop env chunks [] [] []) = Inr (context_text, sources)"
  shows "ChatCompletionsCreate LLM_MODEL
           [\<lparr>role = ''system'', content = system_prompt context_text\<rparr>,
            \<lparr>role = ''user'', content = query\<rparr>] 0
         \<in> set (snd (get_llm_answer env query chunks))"
proof (cases "context_loop env chunks [] [] []")
  case (Pair r evs)
  with assms have "r = Inr (context_text, sources)" by simp
  with Pair show ?thesis
    by (simp add: get_llm_answer_def Let_def split: sum.splits list.splits)
qed

text \<open>
  C3. For a sequence of chunks whose \<open>content\<close> fields are \<open>vals\<close>, in order, the
  context text is the concatenation, in that order, of each formatted content between a
  delimiter line \<open>---\<close> before and after. The context text of the empty sequence is
  empty, and the system message then sent to the model holds \<open>Kein Kontext gefunden.\<close>
  in the place of the context.
\<close>

theorem context_text_is_delimited_concatenation:
  assumes "map (\<lambda>chunk. getitem chunk ''content'') chunks = map Inr vals"
  shows "(\<exists>sources.
            fst (context_loop env chunks [] [] []) =
              Inr (concat (map (\<lambda>v. ''\<newline>---\<newline>'' @ py_format env v @ ''\<newline>---\<newline>'') vals),
                   sources))
    \<and> fst (context_loop env [] [] [] []) = Inr ([], [])
    \<and> ChatCompletionsCreate LLM_MODEL
         [\<lparr>role = ''system'',
           content = prompt_head @ ''Kein Kontext gefunden.'' @ prompt_tail\<rparr>,
          \<lparr>role = ''user'', content = query\<rparr>] 0
         \<in> set (snd (get_llm_answer env query []))"
proof -
  have wrap: "wrap_content env = (\<lambda>v. ''\<newline>---\<newline>'' @ py_format env v @ ''\<newline>---\<newline>'')"
    by (rule ext) (simp add: wrap_content_def)
  have assembled: "fst (context_loop env chunks [] [] []) =
      Inr (concat (map (\<lambda>v. ''\<newline>---\<newline>'' @ py_format env v @ ''\<newline>---\<newline>'') vals),
           concat (map (label_spec env) chunks))"
    using context_loop_succeeds [OF assms, of env "[]" "[]" "[]"] by (simp add: wrap)
  have empty: "ChatCompletionsCreate LLM_MODEL
             [\<lparr>role = ''system'',
               content = prompt_head @ ''Kein Kontext gefunden.'' @ prompt_tail\<rparr>,
              \<lparr>role = ''user'', content = query\<rparr>] 0
             \<in> set (snd (get_llm_answer env query []))"
    using get_llm_answer_call_made [of env "[]" "[]" "[]" query]
    by (simp add: system_prompt_def)
  from assembled empty show ?thesis by simp
qed

theorem context_text_is_delimited_concatenation_witness:
  "map (\<lambda>chunk. getitem chunk ''content'') [aapl_chunk, plain_chunk] =
     map Inr [PStr ''Apple focuses on hardware-software integration.'',
              PStr ''The index holds 100 companies.'']
   \<and> (\<exists>sources. fst (context_loop sample_env [aapl_chunk, plain_chunk] [] [] []) =
        Inr (''\<newline>---\<newline>Apple focuses on hardware-software integration.\<newline>---\<newline>'' @
             ''\<newline>---\<newline>The index holds 100 companies.\<newline>---\<newline>'', sources))
   \<and> ChatCompletionsCreate ''gpt-4o-mini''
         [\<lparr>role = ''system'',
           content = prompt_head @ ''Kein Kontext gefunden.'' @ prompt_tail\<rparr>,
          \<lparr>role = ''user'', content = ''Who runs Azure?''\<rparr>] 0
         \<in> set (snd (get_llm_answer sample_env ''Who runs Azure?'' []))"
proof -
  have contents: "map (\<lambda>chunk. getitem chunk ''content'') [aapl_chunk, plain_chunk] =
     map Inr [PStr ''Apple focuses on hardware-software integration.'',
              PStr ''The index holds 100 companies.'']"
    by (simp add: aapl_chunk_def plain_chunk_def)
  from context_text_is_delimited_concatenation
         [OF contents, of sample_env "''Who runs Azure?''"] contents
  show ?thesis by (simp add: py_format_def LLM_MODEL_def)
qed

text \<open>
  C4. For a sequence of chunks with \<open>content\<close> fields, the source labels collected are,
  chunk by chunk and in order, those of \<open>label_spec\<close>: one label
  \<open>"{ticker} ({company})"\<close> for a chunk whose metadata holds a non-empty \<open>Ticker\<close>, with
  \<open>N/A\<close> for a missing \<open>Company\<close>, and none for a chunk without \<open>Ticker\<close>; the content of
  every chunk, labelled or not, is part of the context text.
\<close>

theorem sources_follow_label_spec:
  assumes "map (\<lambda>chunk. getitem chunk ''content'') chunks = map Inr vals"
  shows "fst (context_loop env chunks [] [] []) =
           Inr (concat (map (\<lambda>v. ''\<newline>---\<newline>'' @ py_format env v @ ''\<newline>---\<newline>'') vals),
                concat (map (label_spec env) chunks))
    \<and> (\<forall>kvs md ticker. map_of kvs ''metadata'' = Some (PDict md)
          \<longrightarrow> map_of md ''Ticker'' = Some ticker \<longrightarrow> truthy ticker \<longrightarrow>
          label_spec env (PDict kvs) =
            [py_format env ticker @ '' ('' @
               (case map_of md ''Company'' of None \<Rightarrow> ''N/A'' | Some company \<Rightarrow> py_format env company)
               @ '')''])
    \<and> (\<forall>kvs md. map_of kvs ''metadata'' = Some (PDict md) \<longrightarrow> map_of md ''Ticker'' = None
          \<longrightarrow> label_spec env (PDict kvs) = [])
    \<and> (\<forall>kvs. map_of kvs ''metadata'' = None \<longrightarrow> label_spec env (PDict kvs) = [])"
proof -
  have wrap: "wrap_content env = (\<lambda>v. ''\<newline>---\<newline>'' @ py_format env v @ ''\<newline>---\<newline>'')"
    by (rule ext) (simp add: wrap_content_def)
  have "fst (context_loop env chunks [] [] []) =
      Inr (concat (map (\<lambda>v. ''\<newline>---\<newline>'' @ py_format env v @ ''\<newline>---\<newline>'') vals),
           concat (map (label_spec env) chunks))"
    using context_loop_succeeds [OF assms, of env "[]" "[]" "[]"] by (simp add: wrap)
  then show ?thesis by (simp add: label_spec_def)
qed

theorem sources_follow_label_spec_witness:
  "map (\<lambda>chunk. getitem chunk ''content'') [aapl_chunk, plain_chunk, nvda_chunk] =
     map Inr [PStr ''Apple focuses on hardware-software integration.'',
              PStr ''The index holds 100 companies.'', PStr ''Nvidia designs GPUs.'']
   \<and> fst (context_loop sample_env [aapl_chunk, plain_chunk, nvda_chunk] [] [] []) =
        Inr (''\<newline>---\<newline>Apple focuses on hardware-software integration.\<newline>---\<newline>'' @
             ''\<newline>---\<newline>The index holds 100 companies.\<newline>---\<newline>'' @
             ''\<newline>---\<newline>Nvidia designs GPUs.\<newline>---\<newline>'',
             [''AAPL (Apple Inc.)'', ''NVDA (N/A)''])
   \<and> label_spec sample_env aapl_chunk = [''AAPL (Apple Inc.)'']
   \<and> label_spec sample_env plain_chunk = []
   \<and> label_spec sample_env nvda_chunk = [''NVDA (N/A)'']"
proof -
  have contents: "map (\<lambda>chunk. getitem chunk ''content'') [aapl_chunk, plain_chunk, nvda_chunk] =
     map Inr [PStr ''Apple focuses on hardware-software integration.'',
              PStr ''The index holds 100 companies.'', PStr ''Nvidia designs GPUs.'']"
    by (simp add: aapl_chunk_def plain_chunk_def nvda_chunk_def)
  note spec = sources_follow_label_spec [OF contents, of sample_env]
  have aapl: "label_spec sample_env aapl_chunk = [''AAPL (Apple Inc.)'']"
    using spec [THEN conjunct2, THEN conjunct1, rule_format,
      of "[(''content'', PStr ''Apple focuses on hardware-software integration.''),
           (''similarity'', PFloat 0.7),
           (''metadata'', PDict [(''Ticker'', PStr ''AAPL''), (''Company'', PStr ''Apple Inc.'')])]"
         "[(''Ticker'', PStr ''AAPL''), (''Company'', PStr ''Apple Inc.'')]" "PStr ''AAPL''"]
    by (simp add: aapl_chunk_def py_format_def)
  have plain: "label_spec sample_env plain_chunk = []"
    using spec [THEN conjunct2, THEN conjunct2, THEN conjunct1, rule_format,
      of "[(''content'', PStr ''The index holds 100 companies.''),
           (''metadata'', PDict [(''Sector'', PStr ''Index'')])]"
         "[(''Sector'', PStr ''Index'')]"]
    by (simp add: plain_chunk_def)
  have nvda: "label_spec sample_env nvda_chunk = [''NVDA (N/A)'']"
    using spec [THEN conjunct2, THEN conjunct1, rule_format,
      of "[(''content'', PStr ''Nvidia designs GPUs.''),
           (''metadata'', PDict [(''Ticker'', PStr ''NVDA'')])]"
         "[(''Ticker'', PStr ''NVDA'')]" "PStr ''NVDA''"]
    by (simp add: nvda_chunk_def py_format_def)
  from spec [THEN conjunct1] contents aapl plain nvda
  show ?thesis by (simp add: py_format_def)
qed

section \<open>Answer generation\<close>

lemma get_llm_answer_success:
  assumes "fst (context_loop env chunks [] [] []) = Inr (context_text, sources)"
    and "chat_completions_create env LLM_MODEL
           [\<lparr>role = ''system'', content = system_prompt context_text\<rparr>,
            \<lparr>role = ''user'', content = query\<rparr>] 0 = Inr (answer # others)"
  shows "fst (get_llm_answer env query chunks) =
     Inr (if sources \<noteq> []
          then answer @ ''\<newline>\<newline>**Quellen:**\<newline>- ''
                 @ join ''\<newline>- '' (sorted_list_of_set (set sources))
          else answer)"
proof (cases "context_loop env chunks [] [] []")
  case (Pair r evs)
  with assms(1) have "r = Inr (context_text, sources)" by simp
  with Pair assms(2) show ?thesis
    by (simp add: get_llm_answer_def)
qed

text \<open>
  C5. When the model returns the answer text \<open>answer\<close>, the result of \<open>get_llm_answer\<close>
  is \<open>answer\<close> itself exactly when no source label was collected; otherwise it is
  \<open>answer\<close>, a blank line, the heading \<open>**Quellen:**\<close> and the labels as a list
  that is sorted, free of duplicates and holds exactly the collected labels. With no
  chunks no label is collected, so the result is the answer alone.
\<close>

theorem sources_section_iff_labels:
  assumes "fst (context_loop env chunks [] [] []) = Inr (context_text, sources)"
    and "chat_completions_create env LLM_MODEL
           [\<lparr>role = ''system'', content = system_prompt context_text\<rparr>,
            \<lparr>role = ''user'', content = query\<rparr>] 0 = Inr (answer # others)"
  shows "(\<exists>labels. sorted labels \<and> distinct labels \<and> set labels = set sources
            \<and> fst (get_llm_answer env query chunks) =
                Inr (if sources = [] then answer
                     else answer @ ''\<newline>\<newline>**Quellen:**\<newline>- '' @ join ''\<newline>- '' labels))
    \<and> ((fst (get_llm_answer env query chunks) = Inr answer) = (sources = []))
    \<and> (chunks = [] \<longrightarrow> fst (get_llm_answer env query chunks) = Inr answer)"
proof -
  let ?labels = "sorted_list_of_set (set sources)"
  have result: "fst (get_llm_answer env query chunks) =
      Inr (if sources = [] then answer
           else answer @ ''\<newline>\<newline>**Quellen:**\<newline>- '' @ join ''\<newline>- '' ?labels)"
    using get_llm_answer_success [OF assms] by simp
  have "sorted ?labels \<and> distinct ?labels \<and> set ?labels = set sources"
    by simp
  with result have first: "\<exists>labels. sorted labels \<and> distinct labels \<and> set labels = set sources
            \<and> fst (get_llm_answer env query chunks) =
                Inr (if sources = [] then answer
                     else answer @ ''\<newline>\<newline>**Quellen:**\<newline>- '' @ join ''\<newline>- '' labels)"
    by blast
  have iff: "(fst (get_llm_answer env query chunks) = Inr answer) = (sources = [])"
    by (simp add: result)
  have "sources = []" if "chunks = []"
    using assms(1) that by simp
  with iff have zero: "chunks = [] \<longrightarrow> fst (get_llm_answer env query chunks) = Inr answer"
    by blast
  from first iff zero show ?thesis by blast
qed

theorem sources_section_iff_labels_witness:
  "fst (context_loop sample_env [msft_chunk, aapl_chunk, msft_chunk] [] [] []) =
     Inr (''\<newline>---\<newline>Microsoft runs Azure.\<newline>---\<newline>'' @
          ''\<newline>---\<newline>Apple focuses on hardware-software integration.\<newline>---\<newline>'' @
          ''\<newline>---\<newline>Microsoft runs Azure.\<newline>---\<newline>'',
          [''MSFT (Microsoft)'', ''AAPL (Apple Inc.)'', ''MSFT (Microsoft)''])
   \<and> (\<exists>labels. sorted labels \<and> distinct labels
         \<and> set labels = {''MSFT (Microsoft)'', ''AAPL (Apple Inc.)''}
         \<and> fst (get_llm_answer sample_env ''Who runs Azure?'' [msft_chunk, aapl_chunk, msft_chunk]) =
             Inr (''Azure and hardware.'' @ ''\<newline>\<newline>**Quellen:**\<newline>- '' @ join ''\<newline>- '' labels))
   \<and> fst (get_llm_answer sample_env ''Who runs Azure?'' [msft_chunk, aapl_chunk, msft_chunk]) =
       Inr ''Azure and hardware.\<newline>\<newline>**Quellen:**\<newline>- AAPL (Apple Inc.)\<newline>- MSFT (Microsoft)''
   \<and> fst (context_loop sample_env [] [] [] []) = Inr ([], [])
   \<and> fst (get_llm_answer sample_env ''Who runs Azure?'' []) = Inr ''Azure and hardware.''"
proof -
  let ?ctx = "''\<newline>---\<newline>Microsoft runs Azure.\<newline>---\<newline>'' @
          ''\<newline>---\<newline>Apple focuses on hardware-software integration.\<newline>---\<newline>'' @
          ''\<newline>---\<newline>Microsoft runs Azure.\<newline>---\<newline>''"
  have loop: "fst (context_loop sample_env [msft_chunk, aapl_chunk, msft_chunk] [] [] []) =
     Inr (?ctx, [''MSFT (Microsoft)'', ''AAPL (Apple Inc.)'', ''MSFT (Microsoft)''])"
    by (simp add: msft_chunk_def aapl_chunk_def metadata_sources_def wrap_content_def py_format_def)
  have llm: "chat_completions_create sample_env LLM_MODEL
           [\<lparr>role = ''system'', content = system_prompt ctx\<rparr>,
            \<lparr>role = ''user'', content = ''Who runs Azure?''\<rparr>] 0 = Inr [''Azure and hardware.'']"
    for ctx
    by (simp add: sample_env_def)
  have empty: "fst (context_loop sample_env [] [] [] []) = Inr ([], [])"
    by simp
  note full = sources_section_iff_labels [OF loop llm]
  note none = sources_section_iff_labels [OF empty llm]
  from full obtain labels where sorted: "sorted labels" and distinct: "distinct labels"
    and members: "set labels = set [''MSFT (Microsoft)'', ''AAPL (Apple Inc.)'', ''MSFT (Microsoft)'']"
    and result: "fst (get_llm_answer sample_env ''Who runs Azure?''
        [msft_chunk, aapl_chunk, msft_chunk]) =
      Inr (if [''MSFT (Microsoft)'', ''AAPL (Apple Inc.)'', ''MSFT (Microsoft)''] = [] then ''Azure and hardware.''
           else ''Azure and hardware.'' @ ''\<newline>\<newline>**Quellen:**\<newline>- '' @ join ''\<newline>- '' labels)"
    by blast
  from members have "set labels = {''MSFT (Microsoft)'', ''AAPL (Apple Inc.)''}"
    by auto
  moreover from result have "fst (get_llm_answer sample_env ''Who runs Azure?''
        [msft_chunk, aapl_chunk, msft_chunk]) =
      Inr (''Azure and hardware.'' @ ''\<newline>\<newline>**Quellen:**\<newline>- '' @ join ''\<newline>- '' labels)"
    by (simp only: list.distinct if_False)
  ultimately have labelled: "\<exists>labels. sorted labels \<and> distinct labels
         \<and> set labels = {''MSFT (Microsoft)'', ''AAPL (Apple Inc.)''}
         \<and> fst (get_llm_answer sample_env ''Who runs Azure?'' [msft_chunk, aapl_chunk, msft_chunk]) =
             Inr (''Azure and hardware.'' @ ''\<newline>\<newline>**Quellen:**\<newline>- '' @ join ''\<newline>- '' labels)"
    using sorted distinct by blast
  have text_value: "fst (get_llm_answer sample_env ''Who runs Azure?'' [msft_chunk, aapl_chunk, msft_chunk]) =
       Inr ''Azure and hardware.\<newline>\<newline>**Quellen:**\<newline>- AAPL (Apple Inc.)\<newline>- MSFT (Microsoft)''"
  proof -
    have "sorted_list_of_set
        (set [''MSFT (Microsoft)'', ''AAPL (Apple Inc.)'', ''MSFT (Microsoft)'']) =
        [''AAPL (Apple Inc.)'', ''MSFT (Microsoft)'']"
      by code_simp
    with get_llm_answer_success [OF loop llm] show ?thesis
      by (simp only: list.distinct if_True not_False_eq_True join.simps append.simps)
  qed
  from none have bare: "fst (get_llm_answer sample_env ''Who runs Azure?'' []) = Inr ''Azure and hardware.''"
    by simp
  from loop labelled text_value empty bare show ?thesis by blast
qed

text \<open>
  C7. When the context was assembled and the call of the language model raises,
  \<open>get_llm_answer\<close> returns the fixed text \<open>Es gab einen Fehler bei der Generierung der
  Antwort.\<close> as its result; it does not raise.
\<close>

theorem llm_failure_gives_fixed_text:
  assumes "fst (context_loop env chunks [] [] []) = Inr (context_text, sources)"
    and "chat_completions_create env LLM_MODEL
           [\<lparr>role = ''system'', content = system_prompt context_text\<rparr>,
            \<lparr>role = ''user'', content = query\<rparr>] 0 = Inl e"
  shows "fst (get_llm_answer env query chunks) =
           Inr ''Es gab einen Fehler bei der Generierung der Antwort.''
    \<and> StError ''Fehler beim Aufruf des LLM: '' e \<in> set (snd (get_llm_answer env query chunks))"
proof (cases "context_loop env chunks [] [] []")
  case (Pair r evs)
  with assms(1) have "r = Inr (context_text, sources)" by simp
  with Pair assms(2) show ?thesis
    by (simp add: get_llm_answer_def generation_error_def)
qed

theorem llm_failure_gives_fixed_text_witness:
  "fst (context_loop llm_down_env [aapl_chunk] [] [] []) =
     Inr (''\<newline>---\<newline>Apple focuses on hardware-software integration.\<newline>---\<newline>'',
          [''AAPL (Apple Inc.)''])
   \<and> chat_completions_create llm_down_env LLM_MODEL
        [\<lparr>role = ''system'', content = system_prompt
            ''\<newline>---\<newline>Apple focuses on hardware-software integration.\<newline>---\<newline>''\<rparr>,
         \<lparr>role = ''user'', content = ''What does Apple do?''\<rparr>] 0 = Inl (ServiceError ''rate limit'')
   \<and> fst (get_llm_answer llm_down_env ''What does Apple do?'' [aapl_chunk]) =
        Inr ''Es gab einen Fehler bei der Generierung der Antwort.''"
proof -
  have loop: "fst (context_loop llm_down_env [aapl_chunk] [] [] []) =
     Inr (''\<newline>---\<newline>Apple focuses on hardware-software integration.\<newline>---\<newline>'',
          [''AAPL (Apple Inc.)''])"
    by (simp add: aapl_chunk_def metadata_sources_def wrap_content_def py_format_def)
  have down: "chat_completions_create llm_down_env LLM_MODEL
        [\<lparr>role = ''system'', content = system_prompt
            ''\<newline>---\<newline>Apple focuses on hardware-software integration.\<newline>---\<newline>''\<rparr>,
         \<lparr>role = ''user'', content = ''What does Apple do?''\<rparr>] 0 = Inl (ServiceError ''rate limit'')"
    by (simp add: llm_down_env_def sample_env_def)
  from llm_failure_gives_fixed_text [OF loop down] loop down show ?thesis by blast
qed

text \<open>
  C8. Every call of the language model made by \<open>get_llm_answer\<close> uses the model
  \<open>gpt-4o-mini\<close>, the temperature 0 and exactly two messages: a system message made of
  the grounding instruction around the assembled context (the placeholder when the
  context is empty) and a user message holding the query as it was given.
\<close>

theorem llm_invocation_shape:
  assumes "ChatCompletionsCreate model msgs temperature
             \<in> set (snd (get_llm_answer env query chunks))"
  shows "model = ''gpt-4o-mini'' \<and> temperature = 0 \<and> length msgs = 2
    \<and> (\<exists>context_text sources.
          fst (context_loop env chunks [] [] []) = Inr (context_text, sources)
        \<and> msgs = [\<lparr>role = ''system'',
                     content = prompt_head
                       @ (if context_text \<noteq> [] then context_text else ''Kein Kontext gefunden.'')
                       @ prompt_tail\<rparr>,
                   \<lparr>role = ''user'', content = query\<rparr>])"
proof -
  from get_llm_answer_events [OF assms]
  obtain context_text sources
    where loop: "fst (context_loop env chunks [] [] []) = Inr (context_text, sources)"
      and call: "ChatCompletionsCreate model msgs temperature =
        ChatCompletionsCreate LLM_MODEL
          [\<lparr>role = ''system'', content = system_prompt context_text\<rparr>,
           \<lparr>role = ''user'', content = query\<rparr>] 0"
    by auto
  from call have "model = ''gpt-4o-mini''" and "temperature = 0"
    and msgs: "msgs = [\<lparr>role = ''system'', content = system_prompt context_text\<rparr>,
                       \<lparr>role = ''user'', content = query\<rparr>]"
    by (simp_all add: LLM_MODEL_def)
  moreover from msgs have "length msgs = 2" by simp
  moreover from loop msgs have "\<exists>context_text sources.
          fst (context_loop env chunks [] [] []) = Inr (context_text, sources)
        \<and> msgs = [\<lparr>role = ''system'',
                     content = prompt_head
                       @ (if context_text \<noteq> [] then context_text else ''Kein Kontext gefunden.'')
                       @ prompt_tail\<rparr>,
                   \<lparr>role = ''user'', content = query\<rparr>]"
    unfolding system_prompt_def by blast
  ultimately show ?thesis by blast
qed

theorem llm_invocation_shape_witness:
  "ChatCompletionsCreate ''gpt-4o-mini''
     [\<lparr>role = ''system'', content = prompt_head
         @ ''\<newline>---\<newline>Apple focuses on hardware-software integration.\<newline>---\<newline>'' @ prompt_tail\<rparr>,
      \<lparr>role = ''user'', content = ''What does Apple do?''\<rparr>] 0
     \<in> set (snd (get_llm_answer sample_env ''What does Apple do?'' [aapl_chunk]))
   \<and> (0::real) = 0 \<and> length [\<lparr>role = ''system'', content = prompt_head
         @ ''\<newline>---\<newline>Apple focuses on hardware-software integration.\<newline>---\<newline>'' @ prompt_tail\<rparr>,
      \<lparr>role = ''user'', content = ''What does Apple do?''\<rparr>] = 2"
proof -
  have loop: "fst (context_loop sample_env [aapl_chunk] [] [] []) =
     Inr (''\<newline>---\<newline>Apple focuses on hardware-software integration.\<newline>---\<newline>'',
          [''AAPL (Apple Inc.)''])"
    by (simp add: aapl_chunk_def metadata_sources_def wrap_content_def py_format_def)
  have made: "ChatCompletionsCreate ''gpt-4o-mini''
     [\<lparr>role = ''system'', content = prompt_head
         @ ''\<newline>---\<newline>Apple focuses on hardware-software integration.\<newline>---\<newline>'' @ prompt_tail\<rparr>,
      \<lparr>role = ''user'', content = ''What does Apple do?''\<rparr>] 0
     \<in> set (snd (get_llm_answer sample_env ''What does Apple do?'' [aapl_chunk]))"
    using get_llm_answer_call_made [OF loop, of "''What does Apple do?''"]
    by (simp add: system_prompt_def LLM_MODEL_def)
  from llm_invocation_shape [OF made] made show ?thesis by blast
qed

section \<open>Malformed records\<close>

text \<open>
  C9. A chunk that has a \<open>content\<close> field and whose \<open>metadata\<close> is not a mapping does
  not stop the loop: its content is added to the context text, no source label is added,
  and the loop goes on with the remaining chunks. When the metadata is truthy the failed
  access is printed; when it is falsy (as \<open>None\<close>) nothing is accessed.
\<close>

theorem malformed_metadata_tolerated:
  assumes "map_of kvs ''content'' = Some c"
    and "map_of kvs ''metadata'' = Some metadata"
    and "\<forall>md. metadata \<noteq> PDict md"
  shows "context_loop env (PDict kvs # rest) context_text sources evs =
           context_loop env rest
             (context_text @ ''\<newline>---\<newline>'' @ py_format env c @ ''\<newline>---\<newline>'') sources
             (if truthy metadata
              then evs @ [Print ''Fehler beim Parsen der Metadaten: '' AttributeError]
              else evs)"
proof -
  have access: "dict_get metadata key dflt = Inl AttributeError" for key dflt
    using assms(3) by (cases metadata) simp_all
  have "metadata_sources env (PDict kvs) =
      (if truthy metadata then Inl AttributeError else Inr [])"
    by (simp add: metadata_sources_def assms(2) access)
  then show ?thesis
    by (simp add: assms(1) wrap_content_def)
qed

theorem malformed_metadata_tolerated_witness:
  "map_of [(''content'', PStr ''Tesla builds cars.''), (''metadata'', PStr ''{Ticker: TSLA}'')]
     ''content'' = Some (PStr ''Tesla builds cars.'')
   \<and> map_of [(''content'', PStr ''Tesla builds cars.''), (''metadata'', PStr ''{Ticker: TSLA}'')]
     ''metadata'' = Some (PStr ''{Ticker: TSLA}'')
   \<and> (\<forall>md. PStr ''{Ticker: TSLA}'' \<noteq> PDict md)
   \<and> context_loop sample_env [text_metadata_chunk, nvda_chunk] [] [] [] =
       (Inr (''\<newline>---\<newline>Tesla builds cars.\<newline>---\<newline>'' @ ''\<newline>---\<newline>Nvidia designs GPUs.\<newline>---\<newline>'',
             [''NVDA (N/A)'']),
        [Print ''Fehler beim Parsen der Metadaten: '' AttributeError])"
proof -
  let ?kvs = "[(''content'', PStr ''Tesla builds cars.''), (''metadata'', PStr ''{Ticker: TSLA}'')]"
  have c: "map_of ?kvs ''content'' = Some (PStr ''Tesla builds cars.'')" by simp
  have m: "map_of ?kvs ''metadata'' = Some (PStr ''{Ticker: TSLA}'')" by simp
  have n: "\<forall>md. PStr ''{Ticker: TSLA}'' \<noteq> PDict md" by simp
  have "context_loop sample_env [text_metadata_chunk, nvda_chunk] [] [] [] =
      context_loop sample_env [nvda_chunk]
        ([] @ ''\<newline>---\<newline>'' @ py_format sample_env (PStr ''Tesla builds cars.'') @ ''\<newline>---\<newline>'') []
        (if truthy (PStr ''{Ticker: TSLA}'')
         then [] @ [Print ''Fehler beim Parsen der Metadaten: '' AttributeError]
         else [])"
    unfolding text_metadata_chunk_def
    by (rule malformed_metadata_tolerated [OF c m n])
  also have "\<dots> =
       (Inr (''\<newline>---\<newline>Tesla builds cars.\<newline>---\<newline>'' @ ''\<newline>---\<newline>Nvidia designs GPUs.\<newline>---\<newline>'',
             [''NVDA (N/A)'']),
        [Print ''Fehler beim Parsen der Metadaten: '' AttributeError])"
    by (simp add: nvda_chunk_def metadata_sources_def wrap_content_def py_format_def)
  finally have "context_loop sample_env [text_metadata_chunk, nvda_chunk] [] [] [] =
       (Inr (''\<newline>---\<newline>Tesla builds cars.\<newline>---\<newline>'' @ ''\<newline>---\<newline>Nvidia designs GPUs.\<newline>---\<newline>'',
             [''NVDA (N/A)'']),
        [Print ''Fehler beim Parsen der Metadaten: '' AttributeError])" .
  with c m n show ?thesis by blast
qed

text \<open>
  C10. The tolerance does not reach the \<open>content\<close> field. If any chunk of the list has
  no \<open>content\<close> key or is not a mapping, \<open>get_llm_answer\<close> raises (\<open>KeyError\<close> for the
  missing key, \<open>TypeError\<close> for a record that is not a mapping) instead of skipping the
  chunk, and the language model is never called.
\<close>

theorem missing_content_aborts:
  assumes "chunk \<in> set chunks" and "\<forall>v. getitem chunk ''content'' \<noteq> Inr v"
  shows "\<exists>e. fst (get_llm_answer env query chunks) = Inl e
    \<and> (e = TypeError \<or> e = KeyError ''content'')
    \<and> (\<forall>model msgs temperature.
          ChatCompletionsCreate model msgs temperature \<notin> set (snd (get_llm_answer env query chunks)))"
proof -
  from context_loop_aborts [OF assms, of env "[]" "[]" "[]"]
  obtain e where e: "fst (context_loop env chunks [] [] []) = Inl e"
    and kind: "e = TypeError \<or> e = KeyError ''content''"
    by blast
  obtain r evs where loop: "context_loop env chunks [] [] [] = (r, evs)"
    by (cases "context_loop env chunks [] [] []") auto
  with e have r: "r = Inl e" by simp
  have raised: "fst (get_llm_answer env query chunks) = Inl e"
    by (simp add: get_llm_answer_def loop r)
  have "ChatCompletionsCreate model msgs temperature \<notin> set (snd (get_llm_answer env query chunks))"
    for model msgs temperature
  proof
    assume "ChatCompletionsCreate model msgs temperature \<in> set (snd (get_llm_answer env query chunks))"
    from get_llm_answer_events [OF this] e show False by auto
  qed
  with raised kind show ?thesis by blast
qed

theorem missing_content_aborts_witness:
  "headless_chunk \<in> set [nvda_chunk, headless_chunk, aapl_chunk]
   \<and> (\<forall>v. getitem headless_chunk ''content'' \<noteq> Inr v)
   \<and> fst (get_llm_answer sample_env ''Who sells books?'' [nvda_chunk, headless_chunk, aapl_chunk])
       = Inl (KeyError ''content'')
   \<and> (\<forall>v. getitem (PStr ''not a record'') ''content'' \<noteq> Inr v)
   \<and> fst (get_llm_answer sample_env ''Who sells books?'' [PStr ''not a record'']) = Inl TypeError
   \<and> (\<forall>model msgs temperature. ChatCompletionsCreate model msgs temperature \<notin>
         set (snd (get_llm_answer sample_env ''Who sells books?''
           [nvda_chunk, headless_chunk, aapl_chunk])))"
proof -
  have member: "headless_chunk \<in> set [nvda_chunk, headless_chunk, aapl_chunk]" by simp
  have missing: "\<forall>v. getitem headless_chunk ''content'' \<noteq> Inr v"
    by (simp add: headless_chunk_def)
  have member': "PStr ''not a record'' \<in> set [PStr ''not a record'']" by simp
  have missing': "\<forall>v. getitem (PStr ''not a record'') ''content'' \<noteq> Inr v" by simp
  have key: "fst (get_llm_answer sample_env ''Who sells books?''
      [nvda_chunk, headless_chunk, aapl_chunk]) = Inl (KeyError ''content'')"
    by (simp add: get_llm_answer_def nvda_chunk_def headless_chunk_def metadata_sources_def
        wrap_content_def py_format_def)
  have type: "fst (get_llm_answer sample_env ''Who sells books?'' [PStr ''not a record''])
      = Inl TypeError"
    by (simp add: get_llm_answer_def)
  from missing_content_aborts [OF member missing, of sample_env "''Who sells books?''"]
    missing_content_aborts [OF member' missing', of sample_env "''Who sells books?''"]
    member missing missing' key type
  show ?thesis by blast
qed

end
